theory Spec2Isabelle
  imports Complex_Main "HOL-Library.Product_Lexorder"
begin

section \<open>Python values used by the time-series engine\<close>

text \<open>
  A naive \<^verbatim>\<open>datetime.datetime\<close>: year, month, day, hour, minute, second, microsecond.
  Python compares naive datetimes field by field in this order, which is the
  lexicographic order of the tuple of the fields.
\<close>

datatype datetime = Datetime nat nat nat nat nat nat nat

fun dt_key :: "datetime \<Rightarrow> nat \<times> nat \<times> nat \<times> nat \<times> nat \<times> nat \<times> nat" where
  "dt_key (Datetime y m d hh mm ss us) = (y, m, d, hh, mm, ss, us)"

instantiation datetime :: linorder
begin

definition less_eq_datetime :: "datetime \<Rightarrow> datetime \<Rightarrow> bool" where
  "less_eq_datetime a b = (dt_key a \<le> dt_key b)"

definition less_datetime :: "datetime \<Rightarrow> datetime \<Rightarrow> bool" where
  "less_datetime a b = (dt_key a < dt_key b)"

instance
proof
  fix a b c :: datetime
  show "(a < b) = (a \<le> b \<and> \<not> b \<le> a)"
    unfolding less_eq_datetime_def less_datetime_def by (rule less_le_not_le)
  show "a \<le> a"
    unfolding less_eq_datetime_def by (rule order_refl)
  show "a \<le> b \<Longrightarrow> b \<le> c \<Longrightarrow> a \<le> c"
    unfolding less_eq_datetime_def by (rule order_trans)
  show "a = b" if "a \<le> b" and "b \<le> a"
  proof -
    from that have "dt_key a = dt_key b"
      unfolding less_eq_datetime_def by (rule antisym)
    then show ?thesis by (cases a; cases b) simp
  qed
  show "a \<le> b \<or> b \<le> a"
    unfolding less_eq_datetime_def by (rule linear)
qed

end

text \<open>
  What a caller can pass as the \<^verbatim>\<open>timestamp\<close> argument of \<^verbatim>\<open>add_node\<close>: a datetime
  (with an optional tzinfo, given as its UTC offset in minutes), a plain
  \<^verbatim>\<open>datetime.date\<close>, or an object of any other type.
\<close>

datatype py_timestamp =
    PyDatetime datetime "int option"
  | PyDate nat nat nat
  | PyOther

text \<open>
  A Python float as stored in a node. \<^verbatim>\<open>np.nan\<close> is one particular NaN object;
  a NaN that comes from elsewhere (\<^verbatim>\<open>float("nan")\<close>, \<^verbatim>\<open>struct.unpack\<close>) is a different
  object, which matters for the membership test \<^verbatim>\<open>np.nan in values\<close> (identity, since
  NaN is not equal to itself). Finite values are modelled as reals: rounding is not
  modelled.
\<close>

datatype pyfloat = Num real | NpNan | FloatNan

fun isnan :: "pyfloat \<Rightarrow> bool" where
  "isnan (Num x) = False"
| "isnan NpNan = True"
| "isnan FloatNan = True"

datatype py_error =
    ValueError
  | KeyError
  | OverflowError
  | ZeroDivisionError
  | AttributeError
  | TypeError
  | IndexError
  | ParseError
  | Exception string

subsection \<open>Dictionaries\<close>

text \<open>
  A \<^verbatim>\<open>dict\<close> is an association list in insertion order. Keys of a dict are unique;
  \<open>is_dict\<close> states it.
\<close>

type_synonym ('k, 'v) dict = "('k \<times> 'v) list"

definition dict_keys :: "('k, 'v) dict \<Rightarrow> 'k list" where
  "dict_keys d = map fst d"

definition is_dict :: "('k, 'v) dict \<Rightarrow> bool" where
  "is_dict d = distinct (dict_keys d)"

text \<open>\<^verbatim>\<open>d[k] = v\<close>: replaces the value of an existing key in place, appends a new key.\<close>

fun dict_set :: "'k \<Rightarrow> 'v \<Rightarrow> ('k, 'v) dict \<Rightarrow> ('k, 'v) dict" where
  "dict_set k v [] = [(k, v)]"
| "dict_set k v ((k', v') # d) =
     (if k' = k then (k, v) # d else (k', v') # dict_set k v d)"

text \<open>\<^verbatim>\<open>del d[k]\<close>: KeyError when the key is missing.\<close>

definition dict_del :: "'k \<Rightarrow> ('k, 'v) dict \<Rightarrow> py_error + ('k, 'v) dict" where
  "dict_del k d =
     (if k \<in> set (dict_keys d) then Inr (filter (\<lambda>kv. fst kv \<noteq> k) d) else Inl KeyError)"

section \<open>The series container\<close>

datatype Interpretation =
    Instantaneous
  | BlockRight
  | BlockLeft
  | Cumulative
  | CumulativePerTimestep
  | Undefined

text \<open>
  The attributes of a \<^verbatim>\<open>Timeseries\<close> instance. The type parameter is what the
  \<^verbatim>\<open>nodes\<close> attribute holds: the dict itself where a series is passed as a state, a
  reference to a dict in the object store further below.
\<close>

record 'n Timeseries =
  title :: string
  station_id :: string
  station_name :: string
  param :: string
  unit :: string
  location :: string
  lat :: pyfloat
  lon :: pyfloat
  z :: pyfloat
  interp :: Interpretation
  nodes :: 'n

type_synonym 'v series = "(datetime, 'v) dict Timeseries"

text \<open>\<^verbatim>\<open>__init__\<close>, given the fresh empty dict for \<^verbatim>\<open>nodes\<close>.\<close>

definition Timeseries_init :: "string \<Rightarrow> 'n \<Rightarrow> 'n Timeseries" where
  "Timeseries_init t n =
     \<lparr> title = t, station_id = ''0'', station_name = '''', param = '''', unit = '''',
       location = '''', lat = Num 0, lon = Num 0, z = Num 0, interp = Undefined, nodes = n \<rparr>"

subsection \<open>add_node\<close>

text \<open>
  Lines 83-91: the type check of the timestamp, the conversion of a date to a datetime at
  midnight, and \<^verbatim>\<open>replace(tzinfo=None)\<close>.
\<close>

fun normalize_timestamp :: "py_timestamp \<Rightarrow> py_error + datetime" where
  "normalize_timestamp (PyDatetime t tz) = Inr t"
| "normalize_timestamp (PyDate y m d) = Inr (Datetime y m d 0 0 0 0)"
| "normalize_timestamp PyOther = Inl ValueError"

text \<open>
  \<^verbatim>\<open>add_node\<close> mutates \<^verbatim>\<open>self.nodes\<close>; the model returns how the call ended (\<open>Inl\<close> the
  exception raised, \<open>Inr ()\<close> a normal return) together with the series after the call.
\<close>

definition add_node :: "'v series \<Rightarrow> py_timestamp \<Rightarrow> 'v \<Rightarrow> (py_error + unit) \<times> 'v series" where
  "add_node self timestamp v =
     (case normalize_timestamp timestamp of
        Inl e \<Rightarrow> (Inl e, self)
      | Inr t \<Rightarrow>
          if t \<in> set (dict_keys (nodes self)) then (Inl KeyError, self)
          else (Inr (), self\<lparr>nodes := dict_set t v (nodes self)\<rparr>))"

text \<open>The idiomatic update \<^verbatim>\<open>ts.nodes[timestamp] = value\<close>, which the KeyError message points to.\<close>

definition nodes_assign :: "'v series \<Rightarrow> datetime \<Rightarrow> 'v \<Rightarrow> 'v series" where
  "nodes_assign self t v = self\<lparr>nodes := dict_set t v (nodes self)\<rparr>"

subsection \<open>Sorted accessors\<close>

text \<open>The property \<^verbatim>\<open>dates\<close>: \<^verbatim>\<open>sorted(self.nodes.keys())\<close>.\<close>

definition dates :: "'v series \<Rightarrow> datetime list" where
  "dates self = sort (dict_keys (nodes self))"

text \<open>
  \<^verbatim>\<open>__iter__\<close>: the pairs \<^verbatim>\<open>(date, self.nodes[date])\<close> for \<^verbatim>\<open>date\<close> in \<^verbatim>\<open>self.dates\<close>. Every
  date is a key, so the lookup cannot raise.
\<close>

definition items :: "'v series \<Rightarrow> (datetime \<times> 'v) list" where
  "items self = List.map_filter (\<lambda>d. map_option (Pair d) (map_of (nodes self) d)) (dates self)"

subsection \<open>cut and cut_bisect\<close>

text \<open>
  The loop of \<^verbatim>\<open>cut\<close> over the sorted dates: \<^verbatim>\<open>continue\<close> before \<^verbatim>\<open>start\<close>, \<^verbatim>\<open>break\<close> after
  \<^verbatim>\<open>end\<close> (written \<open>stop\<close> here).
\<close>

fun cut_loop ::
  "datetime \<Rightarrow> datetime \<Rightarrow> (datetime \<times> 'v) list \<Rightarrow> (datetime, 'v) dict \<Rightarrow> (datetime, 'v) dict" where
  "cut_loop start stop [] new_nodes = new_nodes"
| "cut_loop start stop ((date, v) # rest) new_nodes =
     (if date < start then cut_loop start stop rest new_nodes
      else if date > stop then new_nodes
      else cut_loop start stop rest (dict_set date v new_nodes))"

definition cut :: "'v series \<Rightarrow> datetime \<Rightarrow> datetime \<Rightarrow> 'v series" where
  "cut self start stop = self\<lparr>nodes := cut_loop start stop (items self) []\<rparr>"

text \<open>\<^verbatim>\<open>bisect.bisect_left(a, x, lo, hi)\<close> of the standard library.\<close>

function bisect_left :: "'a::linorder list \<Rightarrow> 'a \<Rightarrow> nat \<Rightarrow> nat \<Rightarrow> nat" where
  "bisect_left a x lo hi =
     (if lo < hi then
        (if a ! ((lo + hi) div 2) < x then bisect_left a x ((lo + hi) div 2 + 1) hi
         else bisect_left a x lo ((lo + hi) div 2))
      else lo)"
  by pat_completeness auto
termination
  by (relation "measure (\<lambda>(a, x, lo, hi). hi - lo)") auto

text \<open>The slice \<^verbatim>\<open>xs[i:j]\<close> for indices that are not negative.\<close>

definition slice :: "nat \<Rightarrow> nat \<Rightarrow> 'a list \<Rightarrow> 'a list" where
  "slice i j xs = drop i (take j xs)"

definition cut_bisect :: "'v series \<Rightarrow> datetime \<Rightarrow> datetime \<Rightarrow> 'v series" where
  "cut_bisect self start stop =
     (let ds = dates self;
          i_start = bisect_left ds start 0 (length ds);
          i_end = bisect_left ds stop i_start (length ds);
          new_nodes = fold (\<lambda>(date, v) acc. dict_set date v acc)
                        (slice i_start (i_end + 1) (items self)) []
      in self\<lparr>nodes := new_nodes\<rparr>)"

subsection \<open>copy_metadata\<close>

text \<open>Lines 192-200: nine assignments; \<^verbatim>\<open>interpretation\<close> and \<^verbatim>\<open>nodes\<close> are not among them.\<close>

definition copy_metadata :: "'n Timeseries \<Rightarrow> 'm Timeseries \<Rightarrow> 'n Timeseries" where
  "copy_metadata self ts =
     self\<lparr> title := title ts, station_id := station_id ts, station_name := station_name ts,
           param := param ts, unit := unit ts, location := location ts,
           lat := lat ts, lon := lon ts, z := z ts \<rparr>"

section \<open>Calendar arithmetic\<close>

text \<open>\<^verbatim>\<open>calendar.isleap\<close> and the number of days \<^verbatim>\<open>calendar.monthrange(year, month)[1]\<close>.\<close>

definition isleap :: "nat \<Rightarrow> bool" where
  "isleap y = (y mod 4 = 0 \<and> (if y mod 100 = 0 then y mod 400 = 0 else True))"

definition monthrange_days :: "nat \<Rightarrow> nat \<Rightarrow> nat" where
  "monthrange_days y m =
     (if m = 2 then (if isleap y then 29 else 28)
      else if m = 4 \<or> m = 6 \<or> m = 9 \<or> m = 11 then 30 else 31)"

text \<open>
  \<^verbatim>\<open>add_months\<close> (lines 1191-1195). \<^verbatim>\<open>int(sourcedate.year + month / 12)\<close> truncates the
  quotient towards zero; it is written here on the exact fraction \<open>(12 * year + month) / 12\<close>.
  \<^verbatim>\<open>datetime.date(year, month, day)\<close> raises ValueError for a year outside 1..9999.
\<close>

definition add_months :: "datetime \<Rightarrow> int \<Rightarrow> py_error + datetime" where
  "add_months sourcedate months =
     (case sourcedate of Datetime y m d hh mm ss us \<Rightarrow>
        let month0 = int m - 1 + months;
            n = 12 * int y + month0;
            year' = (if 0 \<le> n then n div 12 else - ((- n) div 12));
            month' = month0 mod 12 + 1;
            day' = min d (monthrange_days (nat year') (nat month'))
        in if year' < 1 \<or> 9999 < year' then Inl ValueError
           else Inr (Datetime (nat year') (nat month') day' hh mm ss us))"

text \<open>
  \<^verbatim>\<open>t + datetime.timedelta(days=1)\<close> and \<^verbatim>\<open>t + datetime.timedelta(hours=1)\<close>: the next
  calendar day, or hour, at the same time of day; OverflowError past the year 9999.
\<close>

definition plus_one_day :: "datetime \<Rightarrow> py_error + datetime" where
  "plus_one_day t =
     (case t of Datetime y m d hh mm ss us \<Rightarrow>
        if d < monthrange_days y m then Inr (Datetime y m (d + 1) hh mm ss us)
        else if m < 12 then Inr (Datetime y (m + 1) 1 hh mm ss us)
        else if y < 9999 then Inr (Datetime (y + 1) 1 1 hh mm ss us)
        else Inl OverflowError)"

definition plus_one_hour :: "datetime \<Rightarrow> py_error + datetime" where
  "plus_one_hour t =
     (case t of Datetime y m d hh mm ss us \<Rightarrow>
        if hh < 23 then Inr (Datetime y m d (hh + 1) mm ss us)
        else (case plus_one_day t of
                Inl e \<Rightarrow> Inl e
              | Inr (Datetime y' m' d' hh' mm' ss' us') \<Rightarrow> Inr (Datetime y' m' d' 0 mm ss us)))"

section \<open>The aggregation engine\<close>

text \<open>Lines 480-487: the end of the aggregation timestep that starts at \<open>t\<close>.\<close>

definition next_step :: "string \<Rightarrow> datetime \<Rightarrow> py_error + datetime" where
  "next_step dt t =
     (if dt = ''h'' then plus_one_hour t
      else if dt = ''d'' then plus_one_day t
      else if dt = ''M'' then add_months t 1
      else Inl ValueError)"

text \<open>
  Float addition and the builtin \<^verbatim>\<open>sum\<close>, which adds from the left starting at 0. A float
  that is a number is modelled by a real, so a sum is exact where the binary64 sum of
  the code is rounded.
\<close>

fun py_add :: "pyfloat \<Rightarrow> pyfloat \<Rightarrow> pyfloat" where
  "py_add (Num a) (Num b) = Num (a + b)"
| "py_add a b = FloatNan"

definition py_sum :: "pyfloat list \<Rightarrow> pyfloat" where
  "py_sum vals = foldl py_add (Num 0) vals"

text \<open>\<^verbatim>\<open>float(s) / n\<close> for a length \<open>n\<close>.\<close>

definition py_div_len :: "pyfloat \<Rightarrow> nat \<Rightarrow> py_error + pyfloat" where
  "py_div_len s n =
     (if n = 0 then Inl ZeroDivisionError
      else case s of Num a \<Rightarrow> Inr (Num (a / real n)) | NpNan \<Rightarrow> Inr FloatNan | FloatNan \<Rightarrow> Inr FloatNan)"

text \<open>
  Lines 493-503: the aggregate of the values collected for one timestep. The
  interpretation is one of the two strings checked at the entry of \<^verbatim>\<open>aggregate\<close>.
\<close>

definition agg_value :: "string \<Rightarrow> bool \<Rightarrow> pyfloat list \<Rightarrow> py_error + pyfloat" where
  "agg_value interpretation ignore_nan vals =
     (if (\<not> ignore_nan \<and> NpNan \<in> set vals) \<or> list_all isnan vals then Inr NpNan
      else let vals' = filter (\<lambda>v. \<not> isnan v) vals in
        if interpretation = ''Sum'' then Inr (py_sum vals')
        else py_div_len (py_sum vals') (length vals'))"

text \<open>
  The loop of \<^verbatim>\<open>aggregate\<close> (lines 474-514) over the nodes in time order, with the loop
  variables \<open>t\<close>, \<open>vals\<close> (\<^verbatim>\<open>values\<close>) and \<open>nodes_agg\<close>. Nothing follows the loop but the
  construction of the result.
\<close>

fun aggregate_loop ::
  "string \<Rightarrow> datetime \<Rightarrow> string \<Rightarrow> bool \<Rightarrow> (datetime \<times> pyfloat) list \<Rightarrow>
   datetime \<Rightarrow> pyfloat list \<Rightarrow> (datetime, pyfloat) dict \<Rightarrow> py_error + (datetime, pyfloat) dict" where
  "aggregate_loop dt start interpretation ignore_nan [] t vals nodes_agg = Inr nodes_agg"
| "aggregate_loop dt start interpretation ignore_nan ((timestamp, v) # rest) t vals nodes_agg =
     (if timestamp < start then
        aggregate_loop dt start interpretation ignore_nan rest t vals nodes_agg
      else
        (case next_step dt t of
           Inl e \<Rightarrow> Inl e
         | Inr t_next \<Rightarrow>
             if timestamp \<ge> t_next then
               (case agg_value interpretation ignore_nan vals of
                  Inl e \<Rightarrow> Inl e
                | Inr a \<Rightarrow>
                    aggregate_loop dt start interpretation ignore_nan rest t_next [v]
                      (dict_set t a nodes_agg))
             else
               aggregate_loop dt start interpretation ignore_nan rest t (vals @ [v]) nodes_agg))"

definition aggregate ::
  "pyfloat series \<Rightarrow> string \<Rightarrow> datetime \<Rightarrow> string \<Rightarrow> bool \<Rightarrow> py_error + pyfloat series" where
  "aggregate self dt start interpretation ignore_nan =
     (if dt \<notin> set [''h'', ''d'', ''M''] then Inl ValueError
      else if interpretation \<notin> set [''LinearInterpolation'', ''Sum''] then Inl ValueError
      else
        (case aggregate_loop dt start interpretation ignore_nan (items self) start [] [] of
           Inl e \<Rightarrow> Inl e
         | Inr nodes_agg \<Rightarrow>
             let ts = Timeseries_init '''' [];
                 ts = copy_metadata ts self;
                 ts = ts\<lparr>title := title ts @ '' ('' @ dt @ '')''\<rparr>;
                 ts = ts\<lparr>nodes := nodes_agg\<rparr>
             in Inr ts))"

section \<open>Concrete inputs\<close>

text \<open>Midnight of a day of January 2021, and the daily series with the values 1, 2, 3, 4.\<close>

definition jan2021 :: "nat \<Rightarrow> datetime" where
  "jan2021 d = Datetime 2021 1 d 0 0 0 0"

definition daily_1234 :: "pyfloat series" where
  "daily_1234 =
     Timeseries_init ''daily''
       [(jan2021 1, Num 1), (jan2021 2, Num 2), (jan2021 3, Num 3), (jan2021 4, Num 4)]"

text \<open>A series with nodes on 1 and 3 January only.\<close>

definition two_nodes :: "int series" where
  "two_nodes = Timeseries_init ''two'' [(jan2021 1, 10), (jan2021 3, 30)]"

section \<open>Objects and references: copy and synchronize\<close>

text \<open>
  \<^verbatim>\<open>copy\<close> and \<^verbatim>\<open>synchronize\<close> create new \<^verbatim>\<open>Timeseries\<close> objects and new dicts and then
  mutate the new dicts, so what they leave untouched depends on which object holds which
  dict. The store keeps the instances and the dicts in creation order; a reference is an
  index, and the \<^verbatim>\<open>nodes\<close> attribute of an instance is a reference to a dict.
\<close>

record 'v store =
  objects :: "nat Timeseries list"
  dicts :: "(datetime, 'v) dict list"

text \<open>
  Every \<^verbatim>\<open>nodes\<close> attribute refers to a dict of the store, and every dict has unique keys.
\<close>

definition valid_store :: "'v store \<Rightarrow> bool" where
  "valid_store h =
     (list_all (\<lambda>ob. nodes ob < length (dicts h)) (objects h) \<and> list_all is_dict (dicts h))"

text \<open>The series an instance stands for: its attributes, with the dict it refers to.\<close>

definition deref :: "'v store \<Rightarrow> nat \<Rightarrow> 'v series" where
  "deref h r =
     (let ob = objects h ! r in
      \<lparr> title = title ob, station_id = station_id ob, station_name = station_name ob,
        param = param ob, unit = unit ob, location = location ob,
        lat = lat ob, lon = lon ob, z = z ob, interp = interp ob,
        nodes = dicts h ! nodes ob \<rparr>)"

text \<open>A new dict object with the given content (\<^verbatim>\<open>{}\<close>, \<^verbatim>\<open>d.copy()\<close>).\<close>

definition new_dict :: "'v store \<Rightarrow> (datetime, 'v) dict \<Rightarrow> nat \<times> 'v store" where
  "new_dict h d = (length (dicts h), h\<lparr>dicts := dicts h @ [d]\<rparr>)"

text \<open>The constructor call \<^verbatim>\<open>Timeseries(title)\<close>: \<^verbatim>\<open>__init__\<close> creates the empty nodes dict.\<close>

definition new_Timeseries :: "'v store \<Rightarrow> string \<Rightarrow> nat \<times> 'v store" where
  "new_Timeseries h t =
     (case new_dict h [] of
        (n, h1) \<Rightarrow> (length (objects h1), h1\<lparr>objects := objects h1 @ [Timeseries_init t n]\<rparr>))"

text \<open>Attribute assignments on the instance \<open>r\<close>.\<close>

definition update_object :: "'v store \<Rightarrow> nat \<Rightarrow> (nat Timeseries \<Rightarrow> nat Timeseries) \<Rightarrow> 'v store" where
  "update_object h r f = h\<lparr>objects := (objects h)[r := f (objects h ! r)]\<rparr>"

text \<open>
  \<^verbatim>\<open>copy\<close> (lines 174-184): a new instance with the title, eight attribute assignments
  (\<^verbatim>\<open>interpretation\<close> is not assigned), and \<^verbatim>\<open>copy.nodes = self.nodes.copy()\<close>.
\<close>

definition copy :: "'v store \<Rightarrow> nat \<Rightarrow> nat \<times> 'v store" where
  "copy h self =
     (case new_Timeseries h (title (objects h ! self)) of
        (c, h1) \<Rightarrow>
          let s = objects h1 ! self;
              h2 = update_object h1 c
                     (\<lambda>ob. ob\<lparr> station_id := station_id s, station_name := station_name s,
                               param := param s, unit := unit s, location := location s,
                               lat := lat s, lon := lon s, z := z s \<rparr>)
          in (case new_dict h2 (dicts h2 ! nodes (objects h2 ! self)) of
                (n, h3) \<Rightarrow> (c, update_object h3 c (\<lambda>ob. ob\<lparr>nodes := n\<rparr>))))"

text \<open>\<^verbatim>\<open>del ts.nodes[date]\<close> on the instance \<open>r\<close>, and the loop over the dates to delete.\<close>

definition del_node :: "'v store \<Rightarrow> nat \<Rightarrow> datetime \<Rightarrow> py_error + 'v store" where
  "del_node h r date =
     (let n = nodes (objects h ! r) in
      case dict_del date (dicts h ! n) of
        Inl e \<Rightarrow> Inl e
      | Inr d \<Rightarrow> Inr (h\<lparr>dicts := (dicts h)[n := d]\<rparr>))"

fun del_nodes :: "'v store \<Rightarrow> nat \<Rightarrow> datetime list \<Rightarrow> py_error + 'v store" where
  "del_nodes h r [] = Inr h"
| "del_nodes h r (date # rest) =
     (case del_node h r date of Inl e \<Rightarrow> Inl e | Inr h' \<Rightarrow> del_nodes h' r rest)"

text \<open>
  \<^verbatim>\<open>synchronize\<close> (lines 1206-1222). The two frozensets of dates are kept as the sorted
  lists they are built from; a set difference is iterated in that order (the order of
  the deletions does not change the outcome).
\<close>

definition synchronize :: "'v store \<Rightarrow> nat \<Rightarrow> nat \<Rightarrow> py_error + ((nat \<times> nat) \<times> 'v store)" where
  "synchronize h ts1 ts2 =
     (let ts1_dates = dates (deref h ts1);
          ts2_dates = dates (deref h ts2)
      in case copy h ts1 of
        (ts1_sync, h1) \<Rightarrow>
          (case copy h1 ts2 of
             (ts2_sync, h2) \<Rightarrow>
               (case del_nodes h2 ts1_sync (filter (\<lambda>d. d \<notin> set ts2_dates) ts1_dates) of
                  Inl e \<Rightarrow> Inl e
                | Inr h3 \<Rightarrow>
                    (case del_nodes h3 ts2_sync (filter (\<lambda>d. d \<notin> set ts1_dates) ts2_dates) of
                       Inl e \<Rightarrow> Inl e
                     | Inr h4 \<Rightarrow> Inr ((ts1_sync, ts2_sync), h4)))))"

text \<open>
  The attributes of the instance that \<^verbatim>\<open>copy\<close> builds from an instance \<open>s\<close>, with \<open>n\<close> for its
  \<^verbatim>\<open>nodes\<close>; used to state what \<^verbatim>\<open>copy\<close> and \<^verbatim>\<open>synchronize\<close> return.
\<close>

definition copied_instance :: "'n Timeseries \<Rightarrow> 'm \<Rightarrow> 'm Timeseries" where
  "copied_instance s n =
     \<lparr> title = title s, station_id = station_id s, station_name = station_name s,
       param = param s, unit = unit s, location = location s,
       lat = lat s, lon = lon s, z = z s, interp = Undefined, nodes = n \<rparr>"

text \<open>
  A store with two instances: series a (Instantaneous, unit mm) with nodes on 1, 2 and 3
  January, series b (BlockRight) with nodes on 2, 3 and 5 January.
\<close>

definition example_store :: "int store" where
  "example_store =
     \<lparr> objects =
         [(Timeseries_init ''a'' 0)\<lparr>unit := ''mm'', interp := Instantaneous\<rparr>,
          (Timeseries_init ''b'' 1)\<lparr>interp := BlockRight\<rparr>],
       dicts =
         [[(jan2021 1, 1), (jan2021 2, 2), (jan2021 3, 3)],
          [(jan2021 2, 20), (jan2021 3, 30), (jan2021 5, 50)]] \<rparr>"

section \<open>Python strings, numbers and dates as text\<close>

text \<open>
  Characters are the code points below 256. \<^verbatim>\<open>str.strip()\<close> removes the whitespace at both
  ends; \<^verbatim>\<open>str.isspace\<close> holds of the characters 0x09 to 0x0D, 0x1C to 0x20, 0x85 and 0xA0.
\<close>

definition is_space :: "char \<Rightarrow> bool" where
  "is_space c =
     (c \<in> set [CHR '' '', CHR 0x09, CHR 0x0A, CHR 0x0B, CHR 0x0C, CHR 0x0D,
               CHR 0x1C, CHR 0x1D, CHR 0x1E, CHR 0x1F, CHR 0x85, CHR 0xA0])"

definition py_strip :: "string \<Rightarrow> string" where
  "py_strip s = rev (dropWhile is_space (rev (dropWhile is_space s)))"

text \<open>\<^verbatim>\<open>s.startswith(p)\<close>.\<close>

definition startswith :: "string \<Rightarrow> string \<Rightarrow> bool" where
  "startswith s p = (take (length p) s = p)"

text \<open>Decimal digits.\<close>

definition is_digit :: "char \<Rightarrow> bool" where
  "is_digit c = (c \<in> set ''0123456789'')"

definition digit_val :: "char \<Rightarrow> nat" where
  "digit_val c = of_char c - 48"

definition digit_char :: "nat \<Rightarrow> char" where
  "digit_char n = ''0123456789'' ! (n mod 10)"

text \<open>The value of a string of digits, read from the left.\<close>

definition digits_val :: "string \<Rightarrow> nat" where
  "digits_val s = foldl (\<lambda>n c. 10 * n + digit_val c) 0 s"

text \<open>
  \<^verbatim>\<open>int(s)\<close> for a string: surrounding whitespace is stripped, a sign may come first, then
  digits, with single underscores allowed between digits. \<open>None\<close> is ValueError.
\<close>

fun int_body_ok :: "string \<Rightarrow> bool" where
  "int_body_ok [] = False"
| "int_body_ok [c] = is_digit c"
| "int_body_ok (c # d # s) =
     (is_digit c \<and> (if d = CHR ''_'' then int_body_ok s else int_body_ok (d # s)))"

definition int_body :: "string \<Rightarrow> nat option" where
  "int_body s =
     (if int_body_ok s then Some (digits_val (filter (\<lambda>c. c \<noteq> CHR ''_'') s)) else None)"

definition py_int :: "string \<Rightarrow> int option" where
  "py_int s =
     (case py_strip s of
        [] \<Rightarrow> None
      | c # r \<Rightarrow>
          if c = CHR ''-'' then map_option (\<lambda>n. - int n) (int_body r)
          else if c = CHR ''+'' then map_option int (int_body r)
          else map_option int (int_body (c # r)))"

text \<open>\<^verbatim>\<open>str(n)\<close> for an integer.\<close>

fun dec_digits :: "nat \<Rightarrow> string" where
  "dec_digits n = (if n < 10 then [digit_char n] else dec_digits (n div 10) @ [digit_char (n mod 10)])"

definition py_str_int :: "int \<Rightarrow> string" where
  "py_str_int i = (if i < 0 then CHR ''-'' # dec_digits (nat (- i)) else dec_digits (nat i))"

text \<open>A number zero-padded to two digits, as \<^verbatim>\<open>strftime\<close> writes a month, day, hour, minute or second.\<close>

definition two_digits :: "nat \<Rightarrow> string" where
  "two_digits n = [digit_char (n div 10), digit_char (n mod 10)]"

subsection \<open>strptime\<close>

text \<open>
  \<^verbatim>\<open>datetime.strptime\<close> turns the format into a regular expression and matches it at the
  start of the string. The directives used by the decoders are \<^verbatim>\<open>%Y %m %d %H %M %S\<close>;
  their expressions are
  \<^verbatim>\<open>\d\d\d\d\<close>, \<^verbatim>\<open>1[0-2]|0[1-9]|[1-9]\<close>, \<^verbatim>\<open>3[01]|[12]\d|0[1-9]|[1-9]| [1-9]\<close>,
  \<^verbatim>\<open>2[0-3]|[0-1]\d|\d\<close>, \<^verbatim>\<open>[0-5]\d|\d\<close> and \<^verbatim>\<open>6[0-1]|[0-5]\d|\d\<close>.
  A matcher returns the matches of its expression in the order the regular expression
  engine tries them (alternatives from the left), each with the rest of the string.
\<close>

datatype directive = DirY | Dirm | Dird | DirH | DirM | DirS | Lit char | Whitespace

text \<open>An alternative of two characters, and one of a single character.\<close>

definition alt2 :: "(char \<Rightarrow> bool) \<Rightarrow> (char \<Rightarrow> bool) \<Rightarrow> string \<Rightarrow> (nat \<times> string) list" where
  "alt2 P Q s =
     (case s of
        a # b # r \<Rightarrow> if P a \<and> Q b then [(10 * digit_val a + digit_val b, r)] else []
      | _ \<Rightarrow> [])"

definition alt1 :: "(char \<Rightarrow> bool) \<Rightarrow> string \<Rightarrow> (nat \<times> string) list" where
  "alt1 P s = (case s of a # r \<Rightarrow> if P a then [(digit_val a, r)] else [] | _ \<Rightarrow> [])"

definition in_chars :: "string \<Rightarrow> char \<Rightarrow> bool" where
  "in_chars cs c = (c \<in> set cs)"

definition re_field :: "directive \<Rightarrow> string \<Rightarrow> (nat \<times> string) list" where
  "re_field f s =
     (case f of
        DirY \<Rightarrow>
          (case s of
             a # b # c # d # r \<Rightarrow>
               if is_digit a \<and> is_digit b \<and> is_digit c \<and> is_digit d
               then [(digits_val [a, b, c, d], r)] else []
           | _ \<Rightarrow> [])
      | Dirm \<Rightarrow> alt2 (in_chars ''1'') (in_chars ''012'') s
                @ alt2 (in_chars ''0'') (in_chars ''123456789'') s
                @ alt1 (in_chars ''123456789'') s
      | Dird \<Rightarrow> alt2 (in_chars ''3'') (in_chars ''01'') s
                @ alt2 (in_chars ''12'') is_digit s
                @ alt2 (in_chars ''0'') (in_chars ''123456789'') s
                @ alt1 (in_chars ''123456789'') s
                @ (case s of a # r \<Rightarrow> if a = CHR '' '' then alt1 (in_chars ''123456789'') r else []
                   | _ \<Rightarrow> [])
      | DirH \<Rightarrow> alt2 (in_chars ''2'') (in_chars ''0123'') s
                @ alt2 (in_chars ''01'') is_digit s
                @ alt1 is_digit s
      | DirM \<Rightarrow> alt2 (in_chars ''012345'') is_digit s @ alt1 is_digit s
      | DirS \<Rightarrow> alt2 (in_chars ''6'') (in_chars ''01'') s
                @ alt2 (in_chars ''012345'') is_digit s
                @ alt1 is_digit s
      | Lit c \<Rightarrow> []
      | Whitespace \<Rightarrow> [])"

text \<open>
  The matches of a whole format. A literal character matches itself; whitespace in the
  format is \<^verbatim>\<open>\s+\<close>, which takes as much whitespace as there is and gives back one
  character at a time.
\<close>

fun re_match :: "directive list \<Rightarrow> string \<Rightarrow> ((directive \<times> nat) list \<times> string) list" where
  "re_match [] s = [([], s)]"
| "re_match (Lit c # fs) s =
     (case s of a # r \<Rightarrow> if a = c then re_match fs r else [] | [] \<Rightarrow> [])"
| "re_match (Whitespace # fs) s =
     concat (map (\<lambda>k. re_match fs (drop k s)) (rev [1 ..< Suc (length (takeWhile is_space s))]))"
| "re_match (f # fs) s =
     concat (map (\<lambda>(v, r). map (\<lambda>(vs, r'). ((f, v) # vs, r')) (re_match fs r)) (re_field f s))"

text \<open>The value found for a directive, or the default of \<^verbatim>\<open>strptime\<close>.\<close>

definition found :: "directive \<Rightarrow> nat \<Rightarrow> (directive \<times> nat) list \<Rightarrow> nat" where
  "found f dflt vs = (case map_of vs f of Some v \<Rightarrow> v | None \<Rightarrow> dflt)"

text \<open>
  \<^verbatim>\<open>strptime\<close>: the first match must cover the whole string (else "unconverted data
  remains"), and the fields must make a datetime. \<open>None\<close> is ValueError.
\<close>

definition strptime :: "string \<Rightarrow> directive list \<Rightarrow> datetime option" where
  "strptime s fmt =
     (case re_match fmt s of
        [] \<Rightarrow> None
      | (vs, r) # others \<Rightarrow>
          if r \<noteq> [] then None
          else
            let y = found DirY 1900 vs; m = found Dirm 1 vs; d = found Dird 1 vs;
                hh = found DirH 0 vs; mi = found DirM 0 vs; ss = found DirS 0 vs
            in if 1 \<le> y \<and> d \<le> monthrange_days y m \<and> ss \<le> 59
               then Some (Datetime y m d hh mi ss 0) else None)"

text \<open>The formats \<^verbatim>\<open>%Y%m%d%H%M\<close>, \<^verbatim>\<open>%Y%m%d%H%M%S\<close> and \<^verbatim>\<open>%Y-%m-%d %H:%M:%S\<close>.\<close>

definition fmt_YmdHM :: "directive list" where
  "fmt_YmdHM = [DirY, Dirm, Dird, DirH, DirM]"

definition fmt_YmdHMS :: "directive list" where
  "fmt_YmdHMS = [DirY, Dirm, Dird, DirH, DirM, DirS]"

definition fmt_iso :: "directive list" where
  "fmt_iso =
     [DirY, Lit CHR ''-'', Dirm, Lit CHR ''-'', Dird, Whitespace,
      DirH, Lit CHR '':'', DirM, Lit CHR '':'', DirS]"

section \<open>The PI-XML decoder\<close>

text \<open>
  The document as \<^verbatim>\<open>xml.etree.ElementTree\<close> hands it to \<^verbatim>\<open>read_fews\<close>. A header child is
  given by what \<^verbatim>\<open>header.find(...).text\<close> does: \<open>None\<close> when the header has no such element
  (\<^verbatim>\<open>find\<close> returns None and \<^verbatim>\<open>.text\<close> raises AttributeError), \<open>Some None\<close> for an element
  without text (\<^verbatim>\<open>.text\<close> is None) and \<open>Some (Some s)\<close> for an element with the text \<open>s\<close>.
  An event is given by its attributes, \<open>None\<close> for a missing one (KeyError).
\<close>

record pi_header =
  type_text :: "string option option"
  locationId_text :: "string option option"
  parameterId_text :: "string option option"
  stationName_text :: "string option option"
  units_text :: "string option option"
  missVal_text :: "string option option"

record pi_event =
  attr_date :: "string option"
  attr_time :: "string option"
  attr_flag :: "string option"
  attr_value :: "string option"

record pi_series =
  header :: "pi_header option"
  events :: "pi_event list"

text \<open>\<^verbatim>\<open>ET.parse\<close> raises for a file that is not XML; otherwise the root holds the series.\<close>

datatype pi_document = NotXml | Root "pi_series list"

text \<open>The calls of the logger that matter here.\<close>

datatype log_record =
    LogInfo
  | LogWarningDuplicate "string option" "string option"
  | LogErrorReadingSeries
  | LogErrorException py_error

text \<open>
  The result: location id, then parameter id, then the series, or None. An id is the
  text of a header element, so it is a string or None, and None can be a key.
\<close>

type_synonym fews_result =
  "(string option, (string option, pyfloat series option) dict) dict"

definition fews_lookup ::
  "fews_result \<Rightarrow> string option \<Rightarrow> string option \<Rightarrow> pyfloat series option option" where
  "fews_lookup result location_id parameter_id =
     (case map_of result location_id of
        None \<Rightarrow> None
      | Some params \<Rightarrow> map_of params parameter_id)"

text \<open>\<^verbatim>\<open>result[location_id][parameter_id] = v\<close>; the location is a key when this runs.\<close>

definition fews_store ::
  "fews_result \<Rightarrow> string option \<Rightarrow> string option \<Rightarrow> pyfloat series option \<Rightarrow> fews_result" where
  "fews_store result location_id parameter_id v =
     (case map_of result location_id of
        None \<Rightarrow> result
      | Some params \<Rightarrow> dict_set location_id (dict_set parameter_id v params) result)"

text \<open>
  Lines 1048-1055: the interpretation for the header type, or the exception. A type that
  is None equals none of the three strings.
\<close>

definition interpretation_of_type :: "string option \<Rightarrow> py_error + Interpretation" where
  "interpretation_of_type type' =
     (if type' = Some ''instantaneous'' then Inr Instantaneous
      else if type' = Some ''mean'' then Inr BlockRight
      else if type' = Some ''accumulative'' then Inr CumulativePerTimestep
      else Inl (Exception ''Unexpected type''))"

text \<open>
  Lines 1058-1073, the loop over the events of a series. \<open>py_float\<close> stands for the
  builtin \<^verbatim>\<open>float\<close> on strings (\<open>None\<close>: ValueError). The missing value of the header is a
  string or None; an attribute is a string, so it never equals None.
\<close>

fun read_events ::
  "(string \<Rightarrow> pyfloat option) \<Rightarrow> string option \<Rightarrow> pi_event list \<Rightarrow> pyfloat series \<Rightarrow>
   py_error + pyfloat series" where
  "read_events py_float error_value [] ts = Inr ts"
| "read_events py_float error_value (event # rest) ts =
     (case attr_date event of None \<Rightarrow> Inl KeyError | Some date \<Rightarrow>
      case attr_time event of None \<Rightarrow> Inl KeyError | Some time \<Rightarrow>
      case attr_flag event of None \<Rightarrow> Inl KeyError | Some flag_str \<Rightarrow>
      case py_int flag_str of None \<Rightarrow> Inl ValueError | Some flag \<Rightarrow>
      case attr_value event of None \<Rightarrow> Inl KeyError | Some value_str \<Rightarrow>
      case (if py_strip value_str = '''' \<or> Some value_str = error_value then Some NpNan
            else py_float value_str) of
        None \<Rightarrow> Inl ValueError
      | Some v \<Rightarrow>
      case strptime (date @ '' '' @ time) fmt_iso of None \<Rightarrow> Inl ValueError | Some t \<Rightarrow>
      case add_node ts (PyDatetime t None) v of
        (Inl e, ts') \<Rightarrow> Inl e
      | (Inr u, ts') \<Rightarrow> read_events py_float error_value rest ts')"

text \<open>
  Lines 1041-1045, the attributes of the new series: \<^verbatim>\<open>+\<close> raises TypeError when one of its
  operands is None. The attribute \<^verbatim>\<open>unit\<close> of the model holds a string: the None of a
  units element without text is kept as the empty string, which differs from the code
  only in that attribute of a series that is read to its end.
\<close>

definition fews_series ::
  "string option \<Rightarrow> string option \<Rightarrow> string option \<Rightarrow> string option \<Rightarrow>
   py_error + pyfloat series" where
  "fews_series location_id parameter_id station_name' unit' =
     (case location_id of None \<Rightarrow> Inl TypeError | Some l \<Rightarrow>
      case parameter_id of None \<Rightarrow> Inl TypeError | Some p \<Rightarrow>
      case station_name' of None \<Rightarrow> Inl TypeError | Some n \<Rightarrow>
        Inr ((Timeseries_init '''' [])
               \<lparr> title := l @ ''.'' @ p, param := p, station_name := l @ ''.'' @ n,
                 unit := (case unit' of None \<Rightarrow> '''' | Some u \<Rightarrow> u),
                 station_id := l \<rparr>))"

text \<open>
  The body of the \<^verbatim>\<open>try\<close> (lines 1023-1077) for one series: how it ended (\<open>Some e\<close>: the
  exception \<open>e\<close> left it), the result dict and the log records after it. The dict is
  changed before the series is built and the type is looked at, and keeps that change
  when the body fails.
\<close>

definition read_series ::
  "(string \<Rightarrow> pyfloat option) \<Rightarrow> pi_series \<Rightarrow> fews_result \<Rightarrow>
   py_error option \<times> fews_result \<times> log_record list" where
  "read_series py_float series result =
     (case header series of None \<Rightarrow> (Some AttributeError, result, []) | Some hdr \<Rightarrow>
      case type_text hdr of None \<Rightarrow> (Some AttributeError, result, []) | Some type' \<Rightarrow>
      case locationId_text hdr of None \<Rightarrow> (Some AttributeError, result, []) | Some location_id \<Rightarrow>
      case parameterId_text hdr of None \<Rightarrow> (Some AttributeError, result, []) | Some parameter_id \<Rightarrow>
      case stationName_text hdr of None \<Rightarrow> (Some AttributeError, result, []) | Some station_name' \<Rightarrow>
      case units_text hdr of None \<Rightarrow> (Some AttributeError, result, []) | Some unit' \<Rightarrow>
      case missVal_text hdr of None \<Rightarrow> (Some AttributeError, result, []) | Some error_value \<Rightarrow>
        let result1 = (if location_id \<notin> set (dict_keys result)
                       then dict_set location_id [] result else result);
            log1 = (if fews_lookup result1 location_id parameter_id \<noteq> None
                    then [LogWarningDuplicate parameter_id location_id] else []);
            result2 = fews_store result1 location_id parameter_id None
        in case fews_series location_id parameter_id station_name' unit' of
             Inl e \<Rightarrow> (Some e, result2, log1)
           | Inr ts \<Rightarrow>
        (case interpretation_of_type type' of
             Inl e \<Rightarrow> (Some e, result2, log1)
           | Inr i \<Rightarrow>
               (case read_events py_float error_value (events series) (ts\<lparr>interp := i\<rparr>) of
                  Inl e \<Rightarrow> (Some e, result2, log1)
                | Inr ts' \<Rightarrow>
                    (None, fews_store result2 location_id parameter_id (Some ts'),
                     log1 @ [LogInfo]))))"

text \<open>
  The loop over the series with its handler \<^verbatim>\<open>except Exception as e\<close>, which logs the
  exception and goes on with the next series.
\<close>

fun read_fews_loop ::
  "(string \<Rightarrow> pyfloat option) \<Rightarrow> pi_series list \<Rightarrow> fews_result \<Rightarrow> log_record list \<Rightarrow>
   fews_result \<times> log_record list" where
  "read_fews_loop py_float [] result logs = (result, logs)"
| "read_fews_loop py_float (series # rest) result logs =
     (case read_series py_float series result of
        (None, result', log') \<Rightarrow> read_fews_loop py_float rest result' (logs @ log')
      | (Some e, result', log') \<Rightarrow>
          read_fews_loop py_float rest result'
            (logs @ log' @ [LogErrorReadingSeries, LogErrorException e]))"

definition read_fews ::
  "(string \<Rightarrow> pyfloat option) \<Rightarrow> pi_document \<Rightarrow> py_error + (fews_result \<times> log_record list)" where
  "read_fews py_float doc =
     (case doc of
        NotXml \<Rightarrow> Inl ParseError
      | Root series_list \<Rightarrow> Inr (read_fews_loop py_float series_list [] [LogInfo]))"

text \<open>A document with one series of type "total", and a \<^verbatim>\<open>float\<close> for whole numbers.\<close>

definition float_of_digits :: "string \<Rightarrow> pyfloat option" where
  "float_of_digits s = map_option (\<lambda>i. Num (real_of_int i)) (py_int s)"

definition series_of_type_total :: pi_series where
  "series_of_type_total =
     \<lparr> header = Some \<lparr> type_text = Some (Some ''total''), locationId_text = Some (Some ''L1''),
                        parameterId_text = Some (Some ''Q''),
                        stationName_text = Some (Some ''Station''),
                        units_text = Some (Some ''m3/s''), missVal_text = Some (Some ''-999.0'') \<rparr>,
       events = [\<lparr> attr_date = Some ''2021-07-05'', attr_time = Some ''16:30:00'',
                   attr_flag = Some ''2'', attr_value = Some ''177'' \<rparr>] \<rparr>"

section \<open>The UVF decoder\<close>

text \<open>The local variables of \<^verbatim>\<open>read_uvf\<close> (lines 625-633) that the loop over the lines changes.\<close>

record uvf_state =
  i_header :: nat
  is_attributes :: bool
  is_header :: bool
  is_data :: bool
  century :: int
  year :: int
  uvf_ts :: "pyfloat series"

definition uvf_init :: uvf_state where
  "uvf_init =
     \<lparr> i_header = 0, is_attributes = True, is_header = False, is_data = False,
       century = 1900, year = 0, uvf_ts = Timeseries_init '''' [] \<rparr>"

text \<open>
  Lines 660-666, the third header line: the assignments stop at the first \<^verbatim>\<open>float\<close> that
  raises (the bare \<^verbatim>\<open>except\<close> only prints).
\<close>

definition uvf_location :: "(string \<Rightarrow> pyfloat option) \<Rightarrow> string \<Rightarrow> pyfloat series \<Rightarrow> pyfloat series" where
  "uvf_location py_float line ts0 =
     (let ts1 = ts0\<lparr>location := take 15 line\<rparr> in
      case py_float (slice 15 25 line) of None \<Rightarrow> ts1 | Some a \<Rightarrow>
      let ts2 = ts1\<lparr>lat := a\<rparr> in
      case py_float (slice 25 35 line) of None \<Rightarrow> ts2 | Some b \<Rightarrow>
      let ts3 = ts2\<lparr>lon := b\<rparr> in
      case py_float (slice 35 45 line) of None \<Rightarrow> ts3 | Some c \<Rightarrow> ts3\<lparr>z := c\<rparr>)"

text \<open>Lines 679-683: the value of a data line; a field that starts with -777 is missing.\<close>

definition uvf_value :: "(string \<Rightarrow> pyfloat option) \<Rightarrow> string \<Rightarrow> pyfloat option" where
  "uvf_value py_float value_str =
     (if startswith value_str ''-777'' then Some NpNan else py_float value_str)"

text \<open>
  Lines 676-695, a line of the data section: the value, the century (one more when the
  two-digit year is smaller than the last one), the date, and the new node.
\<close>

definition uvf_data ::
  "(string \<Rightarrow> pyfloat option) \<Rightarrow> uvf_state \<Rightarrow> string \<Rightarrow> py_error + uvf_state" where
  "uvf_data py_float st line =
     (if length (py_strip line) > 0 then
        let date_str = take 10 line;
            value_str = py_strip (drop 10 line)
        in case uvf_value py_float value_str of None \<Rightarrow> Inl ValueError | Some v \<Rightarrow>
           case py_int (take 2 date_str) of None \<Rightarrow> Inl ValueError | Some yy \<Rightarrow>
             let century' = (if yy < year st then century st + 100 else century st);
                 date_str' = take 2 (py_str_int century') @ date_str
             in case strptime date_str' fmt_YmdHM of None \<Rightarrow> Inl ValueError | Some date \<Rightarrow>
                case add_node (uvf_ts st) (PyDatetime date None) v of
                  (Inl e, ts') \<Rightarrow> Inl e
                | (Inr u, ts') \<Rightarrow> Inr (st\<lparr>century := century', year := yy, uvf_ts := ts'\<rparr>)
      else Inr st)"

text \<open>Lines 651-673, a line while \<^verbatim>\<open>is_header\<close> holds.\<close>

definition uvf_header ::
  "(string \<Rightarrow> pyfloat option) \<Rightarrow> uvf_state \<Rightarrow> string \<Rightarrow> py_error + uvf_state" where
  "uvf_header py_float st line =
     (let st2 = st\<lparr>i_header := i_header st + 1\<rparr> in
      if i_header st2 = 1 then Inr st2
      else if i_header st2 = 2 then
        (case py_int (slice 30 34 line) of
           None \<Rightarrow> Inl ValueError
         | Some c \<Rightarrow>
             Inr (st2\<lparr>uvf_ts := (uvf_ts st2)\<lparr>title := take 15 line, unit := slice 15 30 line\<rparr>,
                       century := c\<rparr>))
      else if i_header st2 = 3 then Inr (st2\<lparr>uvf_ts := uvf_location py_float line (uvf_ts st2)\<rparr>)
      else if i_header st2 = 4 then Inr st2
      else Inr (st2\<lparr>is_header := False, is_data := True\<rparr>))"

text \<open>The body of the loop (lines 638-695) for one line.\<close>

definition uvf_line ::
  "(string \<Rightarrow> pyfloat option) \<Rightarrow> uvf_state \<Rightarrow> string \<Rightarrow> py_error + uvf_state" where
  "uvf_line py_float st line =
     (let st1 = (if startswith line ''*Z'' then st\<lparr>is_attributes := False, is_header := True\<rparr>
                 else st)
      in case (if is_header st1 then uvf_header py_float st1 line else Inr st1) of
           Inl e \<Rightarrow> Inl e
         | Inr st3 \<Rightarrow> if is_data st3 then uvf_data py_float st3 line else Inr st3)"

fun uvf_lines ::
  "(string \<Rightarrow> pyfloat option) \<Rightarrow> uvf_state \<Rightarrow> string list \<Rightarrow> py_error + uvf_state" where
  "uvf_lines py_float st [] = Inr st"
| "uvf_lines py_float st (line # rest) =
     (case uvf_line py_float st line of
        Inl e \<Rightarrow> Inl e
      | Inr st' \<Rightarrow> uvf_lines py_float st' rest)"

text \<open>\<^verbatim>\<open>read_uvf\<close> on the lines of the file, each with its line end.\<close>

definition read_uvf :: "(string \<Rightarrow> pyfloat option) \<Rightarrow> string list \<Rightarrow> py_error + pyfloat series" where
  "read_uvf py_float file_lines =
     (case uvf_lines py_float uvf_init file_lines of
        Inl e \<Rightarrow> Inl e
      | Inr st \<Rightarrow> Inr (uvf_ts st))"

subsection \<open>Well-formed UVF data\<close>

text \<open>
  The ten characters YYMMDDHHMM that start a data line, as \<^verbatim>\<open>write_to_file\<close> writes them
  for a date with a four-digit year (\<^verbatim>\<open>strftime("%Y%m%d%H%M")[2:]\<close>), and the data line
  for a date and the text of its value field.
\<close>

fun uvf_date_field :: "datetime \<Rightarrow> string" where
  "uvf_date_field (Datetime y m d hh mi ss us) =
     two_digits (y mod 100) @ two_digits m @ two_digits d @ two_digits hh @ two_digits mi"

definition uvf_data_line :: "datetime \<times> string \<Rightarrow> string" where
  "uvf_data_line e = uvf_date_field (fst e) @ snd e"

text \<open>A date that a UVF data line can carry: to the minute, with a four-digit year.\<close>

fun uvf_date_ok :: "datetime \<Rightarrow> bool" where
  "uvf_date_ok (Datetime y m d hh mi ss us) =
     (1000 \<le> y \<and> y \<le> 9999 \<and> 1 \<le> m \<and> m \<le> 12 \<and> 1 \<le> d \<and> d \<le> monthrange_days y m
      \<and> hh < 24 \<and> mi < 60 \<and> ss = 0 \<and> us = 0)"

fun year_of :: "datetime \<Rightarrow> nat" where
  "year_of (Datetime y m d hh mi ss us) = y"

text \<open>
  Consecutive dates increase and lie less than a hundred years apart, so that a change of
  century shows as a smaller two-digit year.
\<close>

fun uvf_chronological :: "datetime list \<Rightarrow> bool" where
  "uvf_chronological [] = True"
| "uvf_chronological [a] = True"
| "uvf_chronological (a # b # ds) =
     (a < b \<and> year_of b < year_of a + 100 \<and> uvf_chronological (b # ds))"

section \<open>Theorems\<close>

text \<open>
  C7. For a timestamp already present in the nodes, \<^verbatim>\<open>add_node\<close> raises KeyError whatever
  the value (also when the datetime carries a tzinfo, which is stripped first), while
  the direct assignment \<^verbatim>\<open>ts.nodes[timestamp] = value\<close> succeeds: afterwards the value
  stored at the timestamp is the new one, every other node is as before (the keys and
  their order too), and all metadata is unchanged.
\<close>

lemma dict_set_keys_present:
  "k \<in> set (dict_keys d) \<Longrightarrow> dict_keys (dict_set k v d) = dict_keys d"
proof (induction d)
  case Nil
  then show ?case by (simp add: dict_keys_def)
next
  case (Cons p d)
  then show ?case by (cases p) (auto simp: dict_keys_def)
qed

lemma map_of_dict_set: "map_of (dict_set k v d) = (map_of d)(k \<mapsto> v)"
  by (induction d) (auto simp: fun_eq_iff)

theorem add_node_existing_raises_assign_overwrites:
  assumes "t \<in> set (dict_keys (nodes self))"
  shows "add_node self (PyDatetime t tz) v = (Inl KeyError, self)
       \<and> map_of (nodes (nodes_assign self t w)) t = Some w
       \<and> (\<forall>t'. t' \<noteq> t \<longrightarrow> map_of (nodes (nodes_assign self t w)) t' = map_of (nodes self) t')
       \<and> dict_keys (nodes (nodes_assign self t w)) = dict_keys (nodes self)
       \<and> nodes_assign self t w = self\<lparr>nodes := nodes (nodes_assign self t w)\<rparr>"
  using assms
  by (simp add: add_node_def nodes_assign_def map_of_dict_set dict_set_keys_present)

theorem add_node_existing_raises_assign_overwrites_witness:
  "Datetime 2020 1 1 0 0 0 0 \<in>
     set (dict_keys (nodes ((Timeseries_init ''a'' [(Datetime 2020 1 1 0 0 0 0, 5::int)]) :: int series)))
   \<and> add_node (Timeseries_init ''a'' [(Datetime 2020 1 1 0 0 0 0, 5::int)])
         (PyDatetime (Datetime 2020 1 1 0 0 0 0) None) 7
       = (Inl KeyError, Timeseries_init ''a'' [(Datetime 2020 1 1 0 0 0 0, 5)])
   \<and> nodes (nodes_assign (Timeseries_init ''a'' [(Datetime 2020 1 1 0 0 0 0, 5::int)])
         (Datetime 2020 1 1 0 0 0 0) 7) = [(Datetime 2020 1 1 0 0 0 0, 7)]"
proof -
  have h: "Datetime 2020 1 1 0 0 0 0 \<in>
     set (dict_keys (nodes ((Timeseries_init ''a'' [(Datetime 2020 1 1 0 0 0 0, 5::int)]) :: int series)))"
    by (simp add: Timeseries_init_def dict_keys_def)
  show ?thesis
    using h add_node_existing_raises_assign_overwrites [OF h, of None 7 7]
    by (simp add: nodes_assign_def Timeseries_init_def)
qed

text \<open>
  C10. \<^verbatim>\<open>add_node\<close> raises exactly when the timestamp argument is neither a datetime nor a
  date (ValueError) or when the normalized timestamp is already a key (KeyError), and
  whenever it raises the series after the call is the series before it: nodes and
  metadata are untouched.
\<close>

theorem add_node_failure_atomic:
  "((\<exists>e. fst (add_node self timestamp v) = Inl e) \<longleftrightarrow>
      (timestamp = PyOther \<or>
       (\<exists>t. normalize_timestamp timestamp = Inr t \<and> t \<in> set (dict_keys (nodes self)))))
   \<and> (\<forall>e. fst (add_node self timestamp v) = Inl e \<longrightarrow> snd (add_node self timestamp v) = self)"
  by (cases timestamp) (auto simp: add_node_def)

theorem add_node_failure_atomic_witness:
  "fst (add_node (Timeseries_init ''a'' [(Datetime 2020 1 1 0 0 0 0, 5::int)]) PyOther 7) = Inl ValueError
   \<and> snd (add_node (Timeseries_init ''a'' [(Datetime 2020 1 1 0 0 0 0, 5::int)]) PyOther 7)
       = Timeseries_init ''a'' [(Datetime 2020 1 1 0 0 0 0, 5)]
   \<and> fst (add_node (Timeseries_init ''a'' [(Datetime 2020 1 1 0 0 0 0, 5::int)])
         (PyDate 2020 1 1) 7) = Inl KeyError
   \<and> snd (add_node (Timeseries_init ''a'' [(Datetime 2020 1 1 0 0 0 0, 5::int)]) (PyDate 2020 1 1) 7)
       = Timeseries_init ''a'' [(Datetime 2020 1 1 0 0 0 0, 5)]"
proof -
  have a: "fst (add_node (Timeseries_init ''a'' [(Datetime 2020 1 1 0 0 0 0, 5::int)]) PyOther 7)
        = Inl ValueError"
    by (simp add: add_node_def)
  have b: "fst (add_node (Timeseries_init ''a'' [(Datetime 2020 1 1 0 0 0 0, 5::int)])
         (PyDate 2020 1 1) 7) = Inl KeyError"
    by (simp add: add_node_def Timeseries_init_def dict_keys_def)
  from a b
    add_node_failure_atomic [of "Timeseries_init ''a'' [(Datetime 2020 1 1 0 0 0 0, 5::int)]" PyOther 7]
    add_node_failure_atomic [of "Timeseries_init ''a'' [(Datetime 2020 1 1 0 0 0 0, 5::int)]"
      "PyDate 2020 1 1" 7]
  show ?thesis by blast
qed

lemmas dt_cmp = less_datetime_def less_eq_datetime_def less_prod_def less_eq_prod_def

lemma items_daily_1234:
  "items daily_1234 =
     [(jan2021 1, Num 1), (jan2021 2, Num 2), (jan2021 3, Num 3), (jan2021 4, Num 4)]"
  by (simp add: items_def dates_def dict_keys_def daily_1234_def Timeseries_init_def
      List.map_filter_simps jan2021_def dt_cmp)

text \<open>
  C1. The scenario of the specification: the daily series 1, 2, 3, 4 from 2021-01-01,
  aggregated with step M, start 2021-01-01, Sum, ignore_nan = False. A timestep is stored
  only when a later node reaches the next boundary; the four nodes all lie before
  2021-02-01, so the loop ends with the values still collected and nothing stored: the
  result has no node at all, where the claim expects one node of value 10. With one more
  node on 2021-02-01 the January sum 10 does appear (and the February node is dropped in
  turn).
\<close>

theorem aggregate_scenario_returns_no_node:
  "aggregate daily_1234 ''M'' (jan2021 1) ''Sum'' False
     = Inr \<lparr> title = ''daily (M)'', station_id = ''0'', station_name = '''', param = '''',
             unit = '''', location = '''', lat = Num 0, lon = Num 0, z = Num 0, interp = Undefined,
             nodes = [] \<rparr>
   \<and> aggregate_loop ''M'' (jan2021 1) ''Sum'' False
        (items daily_1234 @ [(Datetime 2021 2 1 0 0 0 0, Num 5)]) (jan2021 1) [] []
     = Inr [(jan2021 1, Num 10)]"
  unfolding aggregate_def items_daily_1234
  by (simp add: next_step_def add_months_def dt_cmp monthrange_days_def isleap_def Let_def
      copy_metadata_def Timeseries_init_def daily_1234_def jan2021_def agg_value_def py_sum_def)

lemma items_two_nodes: "items two_nodes = [(jan2021 1, 10), (jan2021 3, 30)]"
  by (simp add: items_def dates_def dict_keys_def two_nodes_def Timeseries_init_def
      List.map_filter_simps jan2021_def dt_cmp)

lemma dates_two_nodes: "dates two_nodes = [jan2021 1, jan2021 3]"
  by (simp add: dates_def dict_keys_def two_nodes_def Timeseries_init_def jan2021_def dt_cmp)

text \<open>
  C2. \<^verbatim>\<open>cut\<close> and \<^verbatim>\<open>cut_bisect\<close> disagree. On the series with nodes on 1 and 3 January:
  for start = 1 January and end = 2 January (not a node), \<^verbatim>\<open>cut\<close> keeps the node of
  1 January only, \<^verbatim>\<open>cut_bisect\<close> keeps the node of 3 January too, which lies after the end;
  for start = 3 January and end = 2 January (start after end), \<^verbatim>\<open>cut\<close> keeps nothing and
  \<^verbatim>\<open>cut_bisect\<close> keeps the node of 3 January.
\<close>

theorem cut_bisect_differs_from_cut:
  "nodes (cut two_nodes (jan2021 1) (jan2021 2)) = [(jan2021 1, 10)]
   \<and> nodes (cut_bisect two_nodes (jan2021 1) (jan2021 2)) = [(jan2021 1, 10), (jan2021 3, 30)]
   \<and> nodes (cut two_nodes (jan2021 3) (jan2021 2)) = []
   \<and> nodes (cut_bisect two_nodes (jan2021 3) (jan2021 2)) = [(jan2021 3, 30)]"
  by code_simp

text \<open>
  The metadata of the result of \<^verbatim>\<open>aggregate\<close>, for every series and arguments for which it
  returns: the interpretation is that of a new series (Undefined), the title is suffixed
  with the step, the other attributes are those of the source.
\<close>

lemma aggregate_metadata:
  assumes "aggregate self dt start interpretation ignore_nan = Inr r"
  shows "interp r = Undefined \<and> title r = title self @ '' ('' @ dt @ '')''
       \<and> station_id r = station_id self \<and> station_name r = station_name self
       \<and> param r = param self \<and> unit r = unit self \<and> location r = location self
       \<and> lat r = lat self \<and> lon r = lon self \<and> z r = z self"
  using assms
  by (auto simp: aggregate_def copy_metadata_def Timeseries_init_def Let_def
      split: if_splits sum.splits)

text \<open>
  C4. The series returned by \<^verbatim>\<open>aggregate\<close> does not have the interpretation BlockRight: it
  is built by \<^verbatim>\<open>Timeseries()\<close> and \<^verbatim>\<open>copy_metadata\<close>, neither of which sets it, so it is
  Undefined, here for the daily series aggregated by day. The title is suffixed and the
  other attributes are the source's.
\<close>

theorem aggregate_result_interpretation_undefined:
  "aggregate (daily_1234\<lparr>station_id := ''S1'', unit := ''mm'', interp := Instantaneous\<rparr>)
       ''d'' (jan2021 1) ''Sum'' False
     = Inr \<lparr> title = ''daily (d)'', station_id = ''S1'', station_name = '''', param = '''',
             unit = ''mm'', location = '''', lat = Num 0, lon = Num 0, z = Num 0, interp = Undefined,
             nodes = [(jan2021 1, Num 1), (jan2021 2, Num 2), (jan2021 3, Num 3)] \<rparr>"
proof -
  have "items (daily_1234\<lparr>station_id := ''S1'', unit := ''mm'', interp := Instantaneous\<rparr>)
      = items daily_1234"
    by (simp add: items_def dates_def)
  then show ?thesis
    unfolding aggregate_def items_daily_1234
    by (simp add: next_step_def plus_one_day_def dt_cmp monthrange_days_def isleap_def Let_def
        copy_metadata_def Timeseries_init_def daily_1234_def jan2021_def agg_value_def
        py_sum_def)
qed

subsection \<open>copy and synchronize on the store\<close>

lemma valid_nodes:
  "valid_store h \<Longrightarrow> r < length (objects h) \<Longrightarrow> nodes (objects h ! r) < length (dicts h)"
  by (simp add: valid_store_def list_all_length)

lemma copy_eq:
  assumes "valid_store h" "r < length (objects h)"
  shows "copy h r =
     (length (objects h),
      h\<lparr>objects := objects h @ [copied_instance (objects h ! r) (Suc (length (dicts h)))],
        dicts := dicts h @ [[], dicts h ! nodes (objects h ! r)]\<rparr>)"
  using assms(2) valid_nodes[OF assms]
  by (simp add: copy_def new_Timeseries_def new_dict_def update_object_def Let_def nth_append
      Timeseries_init_def copied_instance_def)

lemma copy_valid:
  assumes "valid_store h" "r < length (objects h)"
  shows "valid_store (snd (copy h r))"
proof -
  have "is_dict (dicts h ! nodes (objects h ! r))"
    using assms valid_nodes[OF assms] by (simp add: valid_store_def list_all_length)
  moreover have "list_all (\<lambda>ob. nodes ob < Suc (Suc (length (dicts h)))) (objects h)"
    using assms(1) by (auto simp: valid_store_def list_all_iff)
  ultimately show ?thesis
    using assms(1) by (simp add: copy_eq[OF assms] valid_store_def copied_instance_def is_dict_def dict_keys_def)
qed

lemma del_nodes_eq:
  assumes "nodes (objects h ! c) = n" "n < length (dicts h)" "distinct ds"
    "set ds \<subseteq> set (dict_keys (dicts h ! n))"
  shows "del_nodes h c ds =
    Inr (h\<lparr>dicts := (dicts h)[n := filter (\<lambda>kv. fst kv \<notin> set ds) (dicts h ! n)]\<rparr>)"
  using assms
proof (induction ds arbitrary: h)
  case Nil
  then show ?case by simp
next
  case (Cons date rest)
  let ?h' = "h\<lparr>dicts := (dicts h)[n := filter (\<lambda>kv. fst kv \<noteq> date) (dicts h ! n)]\<rparr>"
  have 1: "del_node h c date = Inr ?h'"
    using Cons.prems by (simp add: del_node_def dict_del_def)
  have 2: "set rest \<subseteq> set (dict_keys (dicts ?h' ! n))"
  proof
    fix x assume x: "x \<in> set rest"
    with Cons.prems have "x \<in> set (dict_keys (dicts h ! n))" "x \<noteq> date" by auto
    then obtain kv where "kv \<in> set (dicts h ! n)" "fst kv = x"
      by (auto simp: dict_keys_def)
    with \<open>x \<noteq> date\<close> Cons.prems(2) show "x \<in> set (dict_keys (dicts ?h' ! n))"
      by (auto simp: dict_keys_def intro!: image_eqI[where x=kv])
  qed
  have "del_nodes ?h' c rest =
     Inr (?h'\<lparr>dicts := (dicts ?h')[n := filter (\<lambda>kv. fst kv \<notin> set rest) (dicts ?h' ! n)]\<rparr>)"
    using Cons.prems 2 by (intro Cons.IH) simp_all
  then show ?case
    using 1 Cons.prems(2) by (simp add: conj_commute)
qed

lemma nodes_copied_instance [simp]: "nodes (copied_instance s n) = n"
  by (simp add: copied_instance_def)

lemma dates_set: "set (dates s) = set (dict_keys (nodes s))"
  by (simp add: dates_def)

lemma dates_distinct: "is_dict (nodes s) \<Longrightarrow> distinct (dates s)"
  by (simp add: dates_def is_dict_def)

lemma synchronize_eq:
  assumes v: "valid_store h" and r1: "ts1 < length (objects h)" and r2: "ts2 < length (objects h)"
  shows "synchronize h ts1 ts2 =
    Inr ((length (objects h), Suc (length (objects h))),
      h\<lparr>objects := objects h @
          [copied_instance (objects h ! ts1) (Suc (length (dicts h))),
           copied_instance (objects h ! ts2) (Suc (Suc (Suc (length (dicts h)))))],
        dicts := dicts h @
          [[], filter (\<lambda>kv. fst kv \<in> set (dict_keys (nodes (deref h ts2)))) (nodes (deref h ts1)),
           [], filter (\<lambda>kv. fst kv \<in> set (dict_keys (nodes (deref h ts1)))) (nodes (deref h ts2))]\<rparr>)"
proof -
  let ?O = "objects h" and ?D = "dicts h"
  let ?d1 = "?D ! nodes (?O ! ts1)" and ?d2 = "?D ! nodes (?O ! ts2)"
  let ?o1 = "copied_instance (?O ! ts1) (Suc (length ?D))"
  let ?o2 = "copied_instance (?O ! ts2) (Suc (Suc (Suc (length ?D))))"
  let ?h1 = "h\<lparr>objects := ?O @ [?o1], dicts := ?D @ [[], ?d1]\<rparr>"
  let ?h2 = "h\<lparr>objects := ?O @ [?o1, ?o2], dicts := ?D @ [[], ?d1, [], ?d2]\<rparr>"
  let ?x1 = "filter (\<lambda>d. d \<notin> set (dates (deref h ts2))) (dates (deref h ts1))"
  let ?x2 = "filter (\<lambda>d. d \<notin> set (dates (deref h ts1))) (dates (deref h ts2))"
  have n1: "nodes (?O ! ts1) < length ?D" and n2: "nodes (?O ! ts2) < length ?D"
    using valid_nodes[OF v] r1 r2 by auto
  have dd: "is_dict ?d1" "is_dict ?d2"
    using v n1 n2 by (simp_all add: valid_store_def list_all_length)
  have nd: "nodes (deref h ts1) = ?d1" "nodes (deref h ts2) = ?d2"
    by (simp_all add: deref_def Let_def)
  have c1: "copy h ts1 = (length ?O, ?h1)"
    by (rule copy_eq[OF v r1])
  have v1: "valid_store ?h1"
    using copy_valid[OF v r1] c1 by simp
  have c2: "copy ?h1 ts2 = (Suc (length ?O), ?h2)"
    using copy_eq[OF v1, of ts2] r2 n2 by (simp add: nth_append)
  let ?f1 = "filter (\<lambda>kv. fst kv \<in> set (dict_keys ?d2)) ?d1"
  let ?f2 = "filter (\<lambda>kv. fst kv \<in> set (dict_keys ?d1)) ?d2"
  let ?h3 = "h\<lparr>objects := ?O @ [?o1, ?o2], dicts := ?D @ [[], ?f1, [], ?d2]\<rparr>"
  let ?h4 = "h\<lparr>objects := ?O @ [?o1, ?o2], dicts := ?D @ [[], ?f1, [], ?f2]\<rparr>"
  have b1: "filter (\<lambda>kv. fst kv \<notin> set ?x1) ?d1 = ?f1"
    by (rule filter_cong) (auto simp: dates_set nd dict_keys_def)
  have b2: "filter (\<lambda>kv. fst kv \<notin> set ?x2) ?d2 = ?f2"
    by (rule filter_cong) (auto simp: dates_set nd dict_keys_def)
  have "del_nodes ?h2 (length ?O) ?x1 =
      Inr (?h2\<lparr>dicts := (dicts ?h2)[Suc (length ?D) :=
             filter (\<lambda>kv. fst kv \<notin> set ?x1) (dicts ?h2 ! Suc (length ?D))]\<rparr>)"
  proof (rule del_nodes_eq)
    show "nodes (objects ?h2 ! length ?O) = Suc (length ?D)" by (simp add: nth_append)
    show "Suc (length ?D) < length (dicts ?h2)" by simp
    show "distinct ?x1" using dd nd by (simp add: dates_distinct)
    show "set ?x1 \<subseteq> set (dict_keys (dicts ?h2 ! Suc (length ?D)))"
      by (auto simp: nth_append dates_set nd)
  qed
  then have e1: "del_nodes ?h2 (length ?O) ?x1 = Inr ?h3"
    by (simp add: nth_append list_update_append b1[symmetric])
  have "del_nodes ?h3 (Suc (length ?O)) ?x2 =
      Inr (?h3\<lparr>dicts := (dicts ?h3)[Suc (Suc (Suc (length ?D))) :=
             filter (\<lambda>kv. fst kv \<notin> set ?x2) (dicts ?h3 ! Suc (Suc (Suc (length ?D))))]\<rparr>)"
  proof (rule del_nodes_eq)
    show "nodes (objects ?h3 ! Suc (length ?O)) = Suc (Suc (Suc (length ?D)))" by (simp add: nth_append)
    show "Suc (Suc (Suc (length ?D))) < length (dicts ?h3)" by simp
    show "distinct ?x2" using dd nd by (simp add: dates_distinct)
    show "set ?x2 \<subseteq> set (dict_keys (dicts ?h3 ! Suc (Suc (Suc (length ?D)))))"
      by (auto simp: nth_append dates_set nd)
  qed
  then have e2: "del_nodes ?h3 (Suc (length ?O)) ?x2 = Inr ?h4"
    by (simp add: nth_append list_update_append b2[symmetric])
  show ?thesis
    unfolding synchronize_def Let_def c1 by (simp add: c2 e1 e2 nd)
qed

lemma copied_instance_twice: "copied_instance (copied_instance s n) m = copied_instance s m"
  by (simp add: copied_instance_def)

lemma keys_filter_inter:
  "set (dict_keys (filter (\<lambda>kv. fst kv \<in> set (dict_keys d2)) d1))
     = set (dict_keys d1) \<inter> set (dict_keys d2)"
  by (auto simp: dict_keys_def)

lemma map_of_filter_key:
  "t \<in> K \<Longrightarrow> map_of (filter (\<lambda>kv. fst kv \<in> K) d) t = map_of d t"
  by (induction d) auto

lemma copied_instance_nodes_only:
  "copied_instance (objects h ! r) n = copied_instance (deref h r) n"
  by (simp add: copied_instance_def deref_def Let_def)

lemma synchronized_store:
  assumes v: "valid_store h" and r1: "ts1 < length (objects h)" and r2: "ts2 < length (objects h)"
  defines "d1 \<equiv> nodes (deref h ts1)" and "d2 \<equiv> nodes (deref h ts2)"
  defines "f1 \<equiv> filter (\<lambda>kv. fst kv \<in> set (dict_keys d2)) d1"
      and "f2 \<equiv> filter (\<lambda>kv. fst kv \<in> set (dict_keys d1)) d2"
  obtains h' where
    "synchronize h ts1 ts2 = Inr ((length (objects h), Suc (length (objects h))), h')"
    "valid_store h'"
    "length (objects h') = Suc (Suc (length (objects h)))"
    "deref h' (length (objects h)) = copied_instance (deref h ts1) f1"
    "deref h' (Suc (length (objects h))) = copied_instance (deref h ts2) f2"
    "\<forall>r < length (objects h). deref h' r = deref h r"
    "take (length (objects h)) (objects h') = objects h"
    "take (length (dicts h)) (dicts h') = dicts h"
proof -
  define h' where "h' = h\<lparr>objects := objects h @
          [copied_instance (objects h ! ts1) (Suc (length (dicts h))),
           copied_instance (objects h ! ts2) (Suc (Suc (Suc (length (dicts h)))))],
        dicts := dicts h @ [[], f1, [], f2]\<rparr>"
  have 1: "synchronize h ts1 ts2 = Inr ((length (objects h), Suc (length (objects h))), h')"
    unfolding h'_def f1_def f2_def d1_def d2_def by (rule synchronize_eq[OF v r1 r2])
  have n: "nodes (objects h ! ts1) < length (dicts h)" "nodes (objects h ! ts2) < length (dicts h)"
    using valid_nodes[OF v] r1 r2 by auto
  have dd: "is_dict d1" "is_dict d2"
    using v n by (simp_all add: valid_store_def list_all_length d1_def d2_def deref_def Let_def)
  have "is_dict f1" "is_dict f2"
    using dd by (simp_all add: is_dict_def dict_keys_def f1_def f2_def distinct_map_filter)
  moreover have "list_all (\<lambda>ob. nodes ob < Suc (Suc (Suc (Suc (length (dicts h)))))) (objects h)"
    using v by (auto simp: valid_store_def list_all_iff)
  ultimately have 2: "valid_store h'"
    using v by (simp add: valid_store_def h'_def is_dict_def dict_keys_def)
  have 3: "deref h' (length (objects h)) = copied_instance (deref h ts1) f1"
    unfolding copied_instance_nodes_only[symmetric]
    by (simp add: deref_def Let_def h'_def nth_append copied_instance_def)
  have 4: "deref h' (Suc (length (objects h))) = copied_instance (deref h ts2) f2"
    unfolding copied_instance_nodes_only[symmetric]
    by (simp add: deref_def Let_def h'_def nth_append copied_instance_def)
  have 5: "\<forall>r < length (objects h). deref h' r = deref h r"
    using valid_nodes[OF v] by (simp add: deref_def Let_def h'_def nth_append)
  show thesis
    by (rule that[OF 1 2 _ 3 4 5]) (simp_all add: h'_def)
qed

text \<open>
  C8. For two instances of a valid store, \<^verbatim>\<open>synchronize\<close> returns (it raises no KeyError)
  two new instances. The timestamps of both are the intersection of the timestamps of
  the inputs, each with the values its input had there. Every instance and every dict
  that existed before the call is unchanged, in particular the two inputs. Applying
  \<^verbatim>\<open>synchronize\<close> again to the two results returns instances that stand for the same
  series as those results: same nodes and same attributes.
\<close>

theorem synchronize_intersection_idempotent:
  assumes v: "valid_store h" and r1: "ts1 < length (objects h)" and r2: "ts2 < length (objects h)"
  shows "\<exists>a b h'. synchronize h ts1 ts2 = Inr ((a, b), h')
      \<and> length (objects h) \<le> a \<and> length (objects h) \<le> b \<and> a \<noteq> b
      \<and> set (dict_keys (nodes (deref h' a)))
          = set (dict_keys (nodes (deref h ts1))) \<inter> set (dict_keys (nodes (deref h ts2)))
      \<and> set (dict_keys (nodes (deref h' b)))
          = set (dict_keys (nodes (deref h ts1))) \<inter> set (dict_keys (nodes (deref h ts2)))
      \<and> (\<forall>t \<in> set (dict_keys (nodes (deref h ts1))) \<inter> set (dict_keys (nodes (deref h ts2))).
            map_of (nodes (deref h' a)) t = map_of (nodes (deref h ts1)) t
          \<and> map_of (nodes (deref h' b)) t = map_of (nodes (deref h ts2)) t)
      \<and> (\<forall>r < length (objects h). deref h' r = deref h r)
      \<and> take (length (objects h)) (objects h') = objects h
      \<and> take (length (dicts h)) (dicts h') = dicts h
      \<and> (\<exists>a' b' h''. synchronize h' a b = Inr ((a', b'), h'')
            \<and> deref h'' a' = deref h' a \<and> deref h'' b' = deref h' b)"
proof -
  let ?d1 = "nodes (deref h ts1)" and ?d2 = "nodes (deref h ts2)"
  let ?f1 = "filter (\<lambda>kv. fst kv \<in> set (dict_keys ?d2)) ?d1"
  let ?f2 = "filter (\<lambda>kv. fst kv \<in> set (dict_keys ?d1)) ?d2"
  let ?a = "length (objects h)" and ?b = "Suc (length (objects h))"
  from synchronized_store[OF v r1 r2] obtain h' where S:
    "synchronize h ts1 ts2 = Inr ((?a, ?b), h')"
    "valid_store h'"
    "length (objects h') = Suc (Suc ?a)"
    "deref h' ?a = copied_instance (deref h ts1) ?f1"
    "deref h' ?b = copied_instance (deref h ts2) ?f2"
    "\<forall>r < length (objects h). deref h' r = deref h r"
    "take (length (objects h)) (objects h') = objects h"
    "take (length (dicts h)) (dicts h') = dicts h"
    by blast
  have na: "nodes (deref h' ?a) = ?f1" and nb: "nodes (deref h' ?b) = ?f2"
    by (simp_all add: S(4,5))
  have ka: "set (dict_keys ?f1) = set (dict_keys ?d1) \<inter> set (dict_keys ?d2)"
    by (rule keys_filter_inter)
  have kb: "set (dict_keys ?f2) = set (dict_keys ?d1) \<inter> set (dict_keys ?d2)"
    using keys_filter_inter[of ?d1 ?d2] by auto
  have va: "?a < length (objects h')" and vb: "?b < length (objects h')"
    by (simp_all add: S(3))
  from synchronized_store[OF S(2) va vb] obtain h'' where T:
    "synchronize h' ?a ?b = Inr ((length (objects h'), Suc (length (objects h'))), h'')"
    "deref h'' (length (objects h')) = copied_instance (deref h' ?a)
       (filter (\<lambda>kv. fst kv \<in> set (dict_keys (nodes (deref h' ?b)))) (nodes (deref h' ?a)))"
    "deref h'' (Suc (length (objects h'))) = copied_instance (deref h' ?b)
       (filter (\<lambda>kv. fst kv \<in> set (dict_keys (nodes (deref h' ?a)))) (nodes (deref h' ?b)))"
    by blast
  have ia: "filter (\<lambda>kv. fst kv \<in> set (dict_keys ?f2)) ?f1 = ?f1"
    unfolding kb by (intro filter_True ballI) (auto simp: dict_keys_def)
  have ib: "filter (\<lambda>kv. fst kv \<in> set (dict_keys ?f1)) ?f2 = ?f2"
    unfolding ka by (intro filter_True ballI) (auto simp: dict_keys_def)
  have ja: "deref h'' (length (objects h')) = deref h' ?a"
    using T(2) unfolding na nb ia unfolding S(4) copied_instance_twice .
  have jb: "deref h'' (Suc (length (objects h'))) = deref h' ?b"
    using T(3) unfolding na nb ib unfolding S(5) copied_instance_twice .
  have idem: "\<exists>a' b' h''. synchronize h' ?a ?b = Inr ((a', b'), h'')
            \<and> deref h'' a' = deref h' ?a \<and> deref h'' b' = deref h' ?b"
    using T(1) ja jb by blast
  have vals: "\<forall>t \<in> set (dict_keys ?d1) \<inter> set (dict_keys ?d2).
            map_of (nodes (deref h' ?a)) t = map_of ?d1 t
          \<and> map_of (nodes (deref h' ?b)) t = map_of ?d2 t"
    unfolding na nb by (auto simp: map_of_filter_key)
  have keys: "set (dict_keys (nodes (deref h' ?a))) = set (dict_keys ?d1) \<inter> set (dict_keys ?d2)"
     "set (dict_keys (nodes (deref h' ?b))) = set (dict_keys ?d1) \<inter> set (dict_keys ?d2)"
    unfolding na nb by (rule ka, rule kb)
  have fresh: "length (objects h) \<le> ?a" "length (objects h) \<le> ?b" "?a \<noteq> ?b"
    by simp_all
  from S(1) fresh keys vals S(6,7,8) idem show ?thesis
    by blast
qed

theorem synchronize_intersection_idempotent_witness:
  "valid_store example_store
   \<and> 0 < length (objects example_store) \<and> 1 < length (objects example_store)
   \<and> (\<exists>a b h'. synchronize example_store 0 1 = Inr ((a, b), h')
      \<and> length (objects example_store) \<le> a \<and> length (objects example_store) \<le> b \<and> a \<noteq> b
      \<and> set (dict_keys (nodes (deref h' a)))
          = set (dict_keys (nodes (deref example_store 0)))
            \<inter> set (dict_keys (nodes (deref example_store 1)))
      \<and> set (dict_keys (nodes (deref h' b)))
          = set (dict_keys (nodes (deref example_store 0)))
            \<inter> set (dict_keys (nodes (deref example_store 1)))
      \<and> (\<forall>t \<in> set (dict_keys (nodes (deref example_store 0)))
                \<inter> set (dict_keys (nodes (deref example_store 1))).
            map_of (nodes (deref h' a)) t = map_of (nodes (deref example_store 0)) t
          \<and> map_of (nodes (deref h' b)) t = map_of (nodes (deref example_store 1)) t)
      \<and> (\<forall>r < length (objects example_store). deref h' r = deref example_store r)
      \<and> take (length (objects example_store)) (objects h') = objects example_store
      \<and> take (length (dicts example_store)) (dicts h') = dicts example_store
      \<and> (\<exists>a' b' h''. synchronize h' a b = Inr ((a', b'), h'')
            \<and> deref h'' a' = deref h' a \<and> deref h'' b' = deref h' b))"
proof -
  have v: "valid_store example_store"
    by (simp add: valid_store_def example_store_def is_dict_def dict_keys_def
        Timeseries_init_def jan2021_def)
  have r1: "0 < length (objects example_store)" and r2: "1 < length (objects example_store)"
    by (simp_all add: example_store_def)
  show ?thesis
    by (intro conjI v r1 r2 synchronize_intersection_idempotent[OF v r1 r2])
qed

text \<open>The same call, computed: the copies keep the nodes of 2 and 3 January.\<close>

lemma synchronize_example:
  "synchronize example_store 0 1 =
     Inr ((2, 3),
       \<lparr> objects = objects example_store @
           [copied_instance (objects example_store ! 0) 3,
            copied_instance (objects example_store ! 1) 5],
         dicts = dicts example_store @
           [[], [(jan2021 2, 2), (jan2021 3, 3)], [], [(jan2021 2, 20), (jan2021 3, 30)]] \<rparr>)"
proof -
  have v: "valid_store example_store"
    by (simp add: valid_store_def example_store_def is_dict_def dict_keys_def
        Timeseries_init_def jan2021_def)
  have r1: "0 < length (objects example_store)" and r2: "1 < length (objects example_store)"
    by (simp_all add: example_store_def)
  show ?thesis
    unfolding synchronize_eq[OF v r1 r2]
    by (simp add: example_store_def deref_def Let_def dict_keys_def jan2021_def
        Timeseries_init_def copied_instance_def)
qed

text \<open>
  What \<^verbatim>\<open>copy\<close> returns, for every instance of a valid store: a new instance with the
  attributes of the source except the interpretation, which is Undefined, and a dict of
  its own with the same nodes; the instances and dicts that existed are unchanged, and a
  deletion through the copy leaves the source as it was.
\<close>

lemma copy_result:
  assumes v: "valid_store h" and r: "r < length (objects h)"
  shows "fst (copy h r) = length (objects h)"
    and "deref (snd (copy h r)) (fst (copy h r)) = copied_instance (deref h r) (nodes (deref h r))"
    and "nodes (objects (snd (copy h r)) ! fst (copy h r)) \<noteq> nodes (objects h ! r)"
    and "\<forall>q < length (objects h). deref (snd (copy h r)) q = deref h q"
    and "\<forall>q < length (objects h). \<forall>h'.
           del_node (snd (copy h r)) (fst (copy h r)) t = Inr h' \<longrightarrow> deref h' q = deref h q"
proof -
  note n = valid_nodes[OF v]
  show "fst (copy h r) = length (objects h)"
    by (simp add: copy_eq[OF v r])
  show "deref (snd (copy h r)) (fst (copy h r)) = copied_instance (deref h r) (nodes (deref h r))"
    unfolding copied_instance_nodes_only[symmetric]
    by (simp add: copy_eq[OF v r] deref_def Let_def nth_append copied_instance_def)
  show "nodes (objects (snd (copy h r)) ! fst (copy h r)) \<noteq> nodes (objects h ! r)"
    using n[OF r] by (simp add: copy_eq[OF v r])
  show "\<forall>q < length (objects h). deref (snd (copy h r)) q = deref h q"
    using n by (simp add: copy_eq[OF v r] deref_def Let_def nth_append)
  show "\<forall>q < length (objects h). \<forall>h'.
           del_node (snd (copy h r)) (fst (copy h r)) t = Inr h' \<longrightarrow> deref h' q = deref h q"
    using n
    by (auto simp: copy_eq[OF v r] del_node_def deref_def Let_def nth_append list_update_append
        split: sum.splits)
qed

text \<open>
  C6. \<^verbatim>\<open>copy\<close> does not copy the interpretation. The copy of series a of the example
  store, which is Instantaneous, is Undefined (the interpretation \<^verbatim>\<open>__init__\<close> gives a new
  instance); the other attributes and the nodes are those of a, in a dict of its own, and
  a itself is unchanged.
\<close>

theorem copy_loses_interpretation:
  "fst (copy example_store 0) = 2
   \<and> deref (snd (copy example_store 0)) 2
       = \<lparr> title = ''a'', station_id = ''0'', station_name = '''', param = '''', unit = ''mm'',
           location = '''', lat = Num 0, lon = Num 0, z = Num 0, interp = Undefined,
           nodes = [(jan2021 1, 1), (jan2021 2, 2), (jan2021 3, 3)] \<rparr>
   \<and> deref (snd (copy example_store 0)) 0
       = \<lparr> title = ''a'', station_id = ''0'', station_name = '''', param = '''', unit = ''mm'',
           location = '''', lat = Num 0, lon = Num 0, z = Num 0, interp = Instantaneous,
           nodes = [(jan2021 1, 1), (jan2021 2, 2), (jan2021 3, 3)] \<rparr>
   \<and> nodes (objects (snd (copy example_store 0)) ! 2) = 3
   \<and> nodes (objects (snd (copy example_store 0)) ! 0) = 0"
  by (simp add: copy_def new_Timeseries_def new_dict_def update_object_def Let_def
      example_store_def deref_def Timeseries_init_def)

subsection \<open>The PI-XML decoder\<close>

lemma dict_set_keys: "set (dict_keys (dict_set k v d)) = insert k (set (dict_keys d))"
  by (simp add: dict_keys_def dom_map_of_conv_image_fst[symmetric] map_of_dict_set)

lemma fews_lookup_store:
  assumes "location_id \<in> set (dict_keys result)"
  shows "fews_lookup (fews_store result location_id parameter_id v) location_id parameter_id = Some v"
proof -
  from assms obtain params where "map_of result location_id = Some params"
    by (cases "map_of result location_id") (auto simp: map_of_eq_None_iff dict_keys_def)
  then show ?thesis
    by (simp add: fews_lookup_def fews_store_def map_of_dict_set)
qed

text \<open>The loop over the series only adds to the log, and runs through a list in two parts.\<close>

lemma read_fews_loop_logs:
  "\<exists>l. snd (read_fews_loop py_float ss result logs) = logs @ l"
proof (induction ss arbitrary: result logs)
  case Nil
  show ?case by simp
next
  case (Cons series rest)
  obtain r result' log' where rs: "read_series py_float series result = (r, result', log')"
    by (cases "read_series py_float series result") auto
  show ?case
  proof (cases r)
    case None
    from Cons[of result' "logs @ log'"] show ?thesis
      by (auto simp: rs None)
  next
    case (Some e)
    from Cons[of result' "logs @ log' @ [LogErrorReadingSeries, LogErrorException e]"]
    show ?thesis
      by (auto simp: rs Some)
  qed
qed

lemma read_fews_loop_append:
  "read_fews_loop py_float (xs @ ys) result logs
     = read_fews_loop py_float ys (fst (read_fews_loop py_float xs result logs))
         (snd (read_fews_loop py_float xs result logs))"
proof (induction xs arbitrary: result logs)
  case Nil
  show ?case by simp
next
  case (Cons series rest)
  obtain r result' log' where rs: "read_series py_float series result = (r, result', log')"
    by (cases "read_series py_float series result") auto
  show ?case
    by (cases r) (simp_all add: rs Cons)
qed

text \<open>
  A series without one of the three type texts never gets to its events: the body of the
  \<^verbatim>\<open>try\<close> ends with the exception for the type, or with the TypeError of a concatenation
  with None before it. The result holds the None stored before.
\<close>

lemma read_series_unknown_type:
  assumes "header series = Some hdr"
    and "type_text hdr = Some ty"
    and "ty \<noteq> Some ''instantaneous''" and "ty \<noteq> Some ''mean''" and "ty \<noteq> Some ''accumulative''"
    and "locationId_text hdr = Some location_id"
    and "parameterId_text hdr = Some parameter_id"
    and "stationName_text hdr = Some name"
    and "units_text hdr = Some u"
    and "missVal_text hdr = Some error_value"
  shows "\<exists>result' log'.
           read_series py_float series result
             = (Some (if location_id = None \<or> parameter_id = None \<or> name = None then TypeError
                      else Exception ''Unexpected type''), result', log')
           \<and> fews_lookup result' location_id parameter_id = Some None"
proof -
  let ?r1 = "if location_id \<notin> set (dict_keys result) then dict_set location_id [] result else result"
  have k: "location_id \<in> set (dict_keys ?r1)"
    by (simp add: dict_set_keys)
  have "fst (read_series py_float series result)
          = Some (if location_id = None \<or> parameter_id = None \<or> name = None then TypeError
                  else Exception ''Unexpected type'')"
    using assms
    by (simp add: read_series_def interpretation_of_type_def fews_series_def Let_def
        split: option.splits)
  moreover have "fst (snd (read_series py_float series result))
          = fews_store ?r1 location_id parameter_id None"
    using assms
    by (simp add: read_series_def interpretation_of_type_def fews_series_def Let_def
        split: option.splits)
  ultimately show ?thesis
    using fews_lookup_store[OF k, of parameter_id None]
    by (cases "read_series py_float series result") auto
qed

text \<open>
  C5, as the code has it. For a series whose header has its six elements and whose type
  text is none of "instantaneous", "mean" and "accumulative", the body of the \<^verbatim>\<open>try\<close> ends
  with an exception: the one raised for the type, or a TypeError before it when the
  location, parameter or station name element has no text. The exception is caught by
  \<^verbatim>\<open>except Exception\<close> and logged (two error records), and the loop goes on with the next
  series: whatever the other series of the document are, \<^verbatim>\<open>read_fews\<close> returns a result,
  and its log holds the exception.
\<close>

theorem read_fews_unknown_type_is_logged:
  assumes "header series = Some hdr"
    and "type_text hdr = Some ty"
    and "ty \<noteq> Some ''instantaneous''" and "ty \<noteq> Some ''mean''" and "ty \<noteq> Some ''accumulative''"
    and "locationId_text hdr = Some location_id"
    and "parameterId_text hdr = Some parameter_id"
    and "stationName_text hdr = Some name"
    and "units_text hdr = Some u"
    and "missVal_text hdr = Some error_value"
  shows "\<exists>e. fst (read_series py_float series result) = Some e
       \<and> e = (if location_id = None \<or> parameter_id = None \<or> name = None then TypeError
              else Exception ''Unexpected type'')
       \<and> (\<forall>rest logs.
            read_fews_loop py_float (series # rest) result logs
              = read_fews_loop py_float rest (fst (snd (read_series py_float series result)))
                  (logs @ snd (snd (read_series py_float series result))
                     @ [LogErrorReadingSeries, LogErrorException e]))
       \<and> (\<exists>res lg. read_fews py_float (Root (before @ series # after)) = Inr (res, lg)
             \<and> LogErrorException e \<in> set lg)"
proof -
  define e where "e = (if location_id = None \<or> parameter_id = None \<or> name = None then TypeError
              else Exception ''Unexpected type'')"
  have rs: "\<And>r. \<exists>result' log'. read_series py_float series r = (Some e, result', log')"
    using read_series_unknown_type[OF assms] unfolding e_def by blast
  have 1: "fst (read_series py_float series result) = Some e"
    using rs[of result] by auto
  have 3: "read_fews_loop py_float (series # rest) r logs
         = read_fews_loop py_float rest (fst (snd (read_series py_float series r)))
             (logs @ snd (snd (read_series py_float series r))
                @ [LogErrorReadingSeries, LogErrorException e])" for rest r logs
    using rs[of r] by auto
  define r0 where "r0 = fst (read_fews_loop py_float before [] [LogInfo])"
  define l0 where "l0 = snd (read_fews_loop py_float before [] [LogInfo])"
  define l1 where "l1 = l0 @ snd (snd (read_series py_float series r0))
                @ [LogErrorReadingSeries, LogErrorException e]"
  have "read_fews_loop py_float (before @ series # after) [] [LogInfo]
          = read_fews_loop py_float after (fst (snd (read_series py_float series r0))) l1"
    unfolding read_fews_loop_append r0_def[symmetric] l0_def[symmetric] 3 l1_def ..
  moreover obtain l where
    "snd (read_fews_loop py_float after (fst (snd (read_series py_float series r0))) l1) = l1 @ l"
    using read_fews_loop_logs by blast
  ultimately have "LogErrorException e
      \<in> set (snd (read_fews_loop py_float (before @ series # after) [] [LogInfo]))"
    by (simp add: l1_def)
  then have 4: "\<exists>res lg. read_fews py_float (Root (before @ series # after)) = Inr (res, lg)
             \<and> LogErrorException e \<in> set lg"
    by (cases "read_fews_loop py_float (before @ series # after) [] [LogInfo]")
       (simp add: read_fews_def)
  from 1 3 4 show ?thesis
    unfolding e_def by blast
qed

theorem read_fews_unknown_type_is_logged_witness:
  "header series_of_type_total
     = Some \<lparr> type_text = Some (Some ''total''), locationId_text = Some (Some ''L1''),
              parameterId_text = Some (Some ''Q''), stationName_text = Some (Some ''Station''),
              units_text = Some (Some ''m3/s''), missVal_text = Some (Some ''-999.0'') \<rparr>
   \<and> Some ''total'' \<noteq> Some ''instantaneous'' \<and> Some ''total'' \<noteq> Some ''mean''
   \<and> Some ''total'' \<noteq> Some ''accumulative''
   \<and> fst (read_series float_of_digits series_of_type_total []) = Some (Exception ''Unexpected type'')
   \<and> (\<exists>res lg. read_fews float_of_digits (Root ([] @ series_of_type_total # [])) = Inr (res, lg)
         \<and> LogErrorException (Exception ''Unexpected type'') \<in> set lg)"
proof -
  let ?hdr = "\<lparr> type_text = Some (Some ''total''), locationId_text = Some (Some ''L1''),
              parameterId_text = Some (Some ''Q''), stationName_text = Some (Some ''Station''),
              units_text = Some (Some ''m3/s''), missVal_text = Some (Some ''-999.0'') \<rparr>"
  have h: "header series_of_type_total = Some ?hdr"
    by (simp add: series_of_type_total_def)
  have t: "Some ''total'' \<noteq> Some ''instantaneous''" "Some ''total'' \<noteq> Some ''mean''"
    "Some ''total'' \<noteq> Some ''accumulative''"
    by simp_all
  from read_fews_unknown_type_is_logged[OF h, of "Some ''total''" "Some ''L1''" "Some ''Q''"
      "Some ''Station''" "Some ''m3/s''" "Some ''-999.0''" float_of_digits "[]" "[]" "[]"] t h
  show ?thesis by simp
qed

text \<open>
  C5, as the claim states it, fails: a document whose only series has the type "total"
  is decoded without any exception reaching the caller. \<^verbatim>\<open>read_fews\<close> returns a result
  and has logged the exception.
\<close>

theorem read_fews_unknown_type_not_raised:
  "read_fews float_of_digits (Root [series_of_type_total])
     = Inr ([(Some ''L1'', [(Some ''Q'', None)])],
            [LogInfo, LogErrorReadingSeries, LogErrorException (Exception ''Unexpected type'')])
   \<and> (\<forall>e. read_fews float_of_digits (Root [series_of_type_total]) \<noteq> Inl e)"
  by (simp add: read_fews_def read_series_def series_of_type_total_def interpretation_of_type_def
      fews_series_def Let_def fews_store_def fews_lookup_def dict_keys_def)

end
